theory Spec2Isabelle
  imports Main "HOL-Library.AList"
begin

section \<open>Extension authentication handoff: the in-memory store and the two endpoints\<close>

text \<open>
  The development embeds \<^verbatim>\<open>backend-sample/ext_auth_endpoints.py\<close>: the class
  \<^verbatim>\<open>InMemoryAuthStore\<close> and the two request handlers
  \<^verbatim>\<open>get_extension_auth_status\<close> and \<^verbatim>\<open>complete_extension_auth\<close>.
  Mutation is explicit state passing, a raised exception is the \<open>Inl\<close> branch of a sum,
  and every reading of the clock (\<^verbatim>\<open>datetime.utcnow()\<close>) is an argument of the
  operation that performs it, in the order in which the readings happen.
\<close>

subsection \<open>Exceptions\<close>

datatype exn =
    OverflowError string
  | RedisError string
  | JSONDecodeError string
  | KeyError string
  | TypeError string

text \<open>\<^verbatim>\<open>str(e)\<close>: the message, except for a \<^verbatim>\<open>KeyError\<close>, which prints the
  \<^verbatim>\<open>repr\<close> of the missing key.\<close>

fun str_exn :: "exn \<Rightarrow> string" where
  "str_exn (OverflowError m) = m"
| "str_exn (RedisError m) = m"
| "str_exn (JSONDecodeError m) = m"
| "str_exn (KeyError k) = [CHR 0x27] @ k @ [CHR 0x27]"
| "str_exn (TypeError m) = m"

subsection \<open>Dates and durations\<close>

text \<open>
  A naive \<^verbatim>\<open>datetime\<close> is the number of microseconds since
  \<^verbatim>\<open>datetime.min\<close> (0001-01-01T00:00:00); the largest one,
  \<^verbatim>\<open>datetime.max\<close> (9999-12-31T23:59:59.999999), is \<open>datetime_max\<close>. A
  \<^verbatim>\<open>timedelta\<close> is a number of microseconds. \<^verbatim>\<open>timedelta(seconds=n)\<close>
  raises \<^verbatim>\<open>OverflowError\<close> when the normalised number of days exceeds
  999999999 in magnitude, and adding a duration to a date raises it when the sum is not a
  date. The message of the first is abridged (Python prints the number of days in it).
\<close>

type_synonym datetime = int
type_synonym timedelta = int

definition datetime_max :: datetime where
  "datetime_max = 315537897599999999"

definition timedelta_seconds :: "int \<Rightarrow> exn + timedelta" where
  "timedelta_seconds n =
     (if \<bar>n div 86400\<bar> > 999999999
      then Inl (OverflowError ''days; must have magnitude <= 999999999'')
      else Inr (n * 1000000))"

definition datetime_add :: "datetime \<Rightarrow> timedelta \<Rightarrow> exn + datetime" where
  "datetime_add t d =
     (if 0 \<le> t + d \<and> t + d \<le> datetime_max
      then Inr (t + d)
      else Inl (OverflowError ''date value out of range''))"

subsection \<open>InMemoryAuthStore\<close>

text \<open>
  The two dictionaries of the class are association lists in insertion order:
  \<^verbatim>\<open>d[k] = v\<close> is \<open>AList.update\<close> (replace in place, or append),
  \<^verbatim>\<open>d.pop(k, None)\<close> is \<open>AList.delete\<close>, \<^verbatim>\<open>k in d\<close> and
  \<^verbatim>\<open>d[k]\<close> are \<open>map_of\<close>, \<^verbatim>\<open>d.items()\<close> is the list itself.
  The payload type \<open>'v\<close> is the \<^verbatim>\<open>Dict\<close> the caller hands in; the store never
  looks inside it.
\<close>

record 'v InMemoryAuthStore =
  store :: "(string \<times> 'v) list"
  expiry :: "(string \<times> datetime) list"

definition init :: "'v InMemoryAuthStore" where
  "init = \<lparr>store = [], expiry = []\<rparr>"

definition delete_op :: "'v InMemoryAuthStore \<Rightarrow> string \<Rightarrow> 'v InMemoryAuthStore" where
  "delete_op self key =
     self\<lparr>store := AList.delete key (store self),
          expiry := AList.delete key (expiry self)\<rparr>"

text \<open>
  \<^verbatim>\<open>_cleanup_expired\<close>: \<open>now\<close> is its one reading of the clock, \<open>expired_keys\<close>
  the list it builds before it deletes.
\<close>

definition expired_keys :: "'v InMemoryAuthStore \<Rightarrow> datetime \<Rightarrow> string list" where
  "expired_keys self now = map fst (filter (\<lambda>(k, exp). exp < now) (expiry self))"

definition cleanup_expired :: "'v InMemoryAuthStore \<Rightarrow> datetime \<Rightarrow> 'v InMemoryAuthStore" where
  "cleanup_expired self now = fold (\<lambda>key s. delete_op s key) (expired_keys self now) self"

text \<open>
  \<^verbatim>\<open>set\<close>: \<open>now\<close> is the clock read for the expiry, \<open>now_sweep\<close> the one read by
  the sweep that follows. The payload is written before the expiry is computed, so a
  raise in the date arithmetic leaves the payload written and the expiry untouched.
\<close>

definition set_op ::
  "'v InMemoryAuthStore \<Rightarrow> string \<Rightarrow> 'v \<Rightarrow> int \<Rightarrow> datetime \<Rightarrow> datetime
     \<Rightarrow> (exn + unit) \<times> 'v InMemoryAuthStore" where
  "set_op self key val ttl_seconds now now_sweep =
     (let s1 = self\<lparr>store := AList.update key val (store self)\<rparr> in
      case timedelta_seconds ttl_seconds of
        Inl e \<Rightarrow> (Inl e, s1)
      | Inr d \<Rightarrow>
          (case datetime_add now d of
             Inl e \<Rightarrow> (Inl e, s1)
           | Inr exp \<Rightarrow>
               (Inr (), cleanup_expired (s1\<lparr>expiry := AList.update key exp (expiry s1)\<rparr>) now_sweep)))"

text \<open>
  \<^verbatim>\<open>get\<close>: \<open>now_sweep\<close> is the clock read by the sweep, \<open>now\<close> the one read by
  the comparison with the key's expiry (read only when the key is in both dictionaries).
\<close>

definition get_op ::
  "'v InMemoryAuthStore \<Rightarrow> string \<Rightarrow> datetime \<Rightarrow> datetime \<Rightarrow> 'v option \<times> 'v InMemoryAuthStore" where
  "get_op self key now_sweep now =
     (let s1 = cleanup_expired self now_sweep in
      (case map_of (store s1) key of
         None \<Rightarrow> None
       | Some v \<Rightarrow>
           (case map_of (expiry s1) key of
              None \<Rightarrow> None
            | Some exp \<Rightarrow> if now < exp then Some v else None),
       s1))"

text \<open>
  A call of one of the four methods, with the clock readings it makes, and the effect of a
  sequence of calls on the store (the result of a call is dropped, a raise is caught by
  the caller).
\<close>

datatype 'v call =
    Set string 'v int datetime datetime
  | Get string datetime datetime
  | Delete string
  | CleanupExpired datetime

fun apply_call :: "'v InMemoryAuthStore \<Rightarrow> 'v call \<Rightarrow> 'v InMemoryAuthStore" where
  "apply_call s (Set key val ttl_seconds now now_sweep) = snd (set_op s key val ttl_seconds now now_sweep)"
| "apply_call s (Get key now_sweep now) = snd (get_op s key now_sweep now)"
| "apply_call s (Delete key) = delete_op s key"
| "apply_call s (CleanupExpired now) = cleanup_expired s now"

definition run_calls :: "'v InMemoryAuthStore \<Rightarrow> 'v call list \<Rightarrow> 'v InMemoryAuthStore" where
  "run_calls s cs = foldl apply_call s cs"

text \<open>Whether a call returns (only \<^verbatim>\<open>set\<close> can raise), and the key a call writes.\<close>

fun returns :: "'v call \<Rightarrow> bool" where
  "returns (Set key val ttl_seconds now now_sweep) =
     (case timedelta_seconds ttl_seconds of
        Inl e \<Rightarrow> False
      | Inr d \<Rightarrow> (case datetime_add now d of Inl e \<Rightarrow> False | Inr exp \<Rightarrow> True))"
| "returns _ = True"

fun writes :: "string \<Rightarrow> 'v call \<Rightarrow> bool" where
  "writes k (Set key val ttl_seconds now now_sweep) = (key = k)"
| "writes k _ = False"

text \<open>A dictionary holds a key once.\<close>

definition dict_ok :: "'v InMemoryAuthStore \<Rightarrow> bool" where
  "dict_ok s = (distinct (map fst (store s)) \<and> distinct (map fst (expiry s)))"

text \<open>The two dictionaries have the same keys.\<close>

definition keys_agree :: "'v InMemoryAuthStore \<Rightarrow> bool" where
  "keys_agree s = (set (map fst (store s)) = set (map fst (expiry s)))"

subsection \<open>JSON values\<close>

text \<open>
  What \<^verbatim>\<open>json.loads\<close> returns and what the handlers answer: \<^verbatim>\<open>None\<close>,
  booleans, integers, strings, lists and dictionaries (in insertion order). Floating-point
  numbers inside \<^verbatim>\<open>user_data\<close> are not modelled; the handlers never look at them.
\<close>

datatype json =
    JNull
  | JBool bool
  | JInt int
  | JStr string
  | JList "json list"
  | JDict "(string \<times> json) list"

definition quoted :: "string \<Rightarrow> string" where
  "quoted s = [CHR 0x27] @ s @ [CHR 0x27]"

text \<open>\<^verbatim>\<open>obj[k]\<close> for a string \<open>k\<close>: only a dictionary that has the key answers.\<close>

fun subscript :: "json \<Rightarrow> string \<Rightarrow> exn + json" where
  "subscript (JDict d) k = (case map_of d k of None \<Rightarrow> Inl (KeyError k) | Some v \<Rightarrow> Inr v)"
| "subscript (JList xs) k = Inl (TypeError ''list indices must be integers or slices, not str'')"
| "subscript (JStr s) k = Inl (TypeError (''string indices must be integers, not '' @ quoted ''str''))"
| "subscript (JInt i) k = Inl (TypeError (quoted ''int'' @ '' object is not subscriptable''))"
| "subscript (JBool b) k = Inl (TypeError (quoted ''bool'' @ '' object is not subscriptable''))"
| "subscript JNull k = Inl (TypeError (quoted ''NoneType'' @ '' object is not subscriptable''))"

text \<open>Reading a key of a dictionary that is known to be one (used to state results).\<close>

fun jget :: "json \<Rightarrow> string \<Rightarrow> json option" where
  "jget (JDict d) k = map_of d k"
| "jget _ k = None"

subsection \<open>The Redis client\<close>

text \<open>
  The Redis server is not part of the repository. It is a dictionary from keys to a value
  and the seconds to live it was stored with; the server's own eviction is not a step of
  this model. Each call takes a \<open>fault\<close>: \<open>Some m\<close> when the call raises
  \<^verbatim>\<open>redis.RedisError\<close> with message \<open>m\<close> (the server is then left as it was),
  \<open>None\<close> when it is served. With \<^verbatim>\<open>decode_responses=True\<close> a value is a
  string.
\<close>

type_synonym redis = "(string \<times> string \<times> int) list"

definition redis_get :: "redis \<Rightarrow> string \<Rightarrow> string option \<Rightarrow> exn + string option" where
  "redis_get r key fault =
     (case fault of
        Some m \<Rightarrow> Inl (RedisError m)
      | None \<Rightarrow> Inr (map_option fst (map_of r key)))"

definition redis_delete :: "redis \<Rightarrow> string \<Rightarrow> string option \<Rightarrow> (exn + int) \<times> redis" where
  "redis_delete r key fault =
     (case fault of
        Some m \<Rightarrow> (Inl (RedisError m), r)
      | None \<Rightarrow> (Inr (if map_of r key = None then 0 else 1), AList.delete key r))"

definition redis_setex ::
  "redis \<Rightarrow> string \<Rightarrow> int \<Rightarrow> string \<Rightarrow> string option \<Rightarrow> (exn + bool) \<times> redis" where
  "redis_setex r key seconds val fault =
     (case fault of
        Some m \<Rightarrow> (Inl (RedisError m), r)
      | None \<Rightarrow> (Inr True, AList.update key (val, seconds) r))"

subsection \<open>The status endpoint\<close>

text \<open>
  \<open>cache_key\<close> is the key both handlers compute, \<^verbatim>\<open>f"ext_auth:{session_id}"\<close>.
  \<^verbatim>\<open>json.loads\<close> is the argument \<open>loads\<close>. \<open>status_try\<close> is the body of the
  \<^verbatim>\<open>try\<close>; \<open>get_extension_auth_status\<close> adds the \<^verbatim>\<open>except Exception\<close>.
  \<^verbatim>\<open>not cached_data\<close> holds for \<^verbatim>\<open>None\<close> and for the empty string.
\<close>

definition cache_key :: "string \<Rightarrow> string" where
  "cache_key sid = ''ext_auth:'' @ sid"

definition status_try ::
  "(string \<Rightarrow> exn + json) \<Rightarrow> redis \<Rightarrow> string \<Rightarrow> string option \<Rightarrow> string option
     \<Rightarrow> (exn + json) \<times> redis" where
  "status_try loads r sid fault_get fault_delete =
     (let pending =
            JDict [(''success'', JBool True),
                   (''result'', JDict [(''status'', JStr ''pending'')]),
                   (''message'', JStr ''Authentication pending'')]
      in
      case redis_get r (cache_key sid) fault_get of
        Inl e \<Rightarrow> (Inl e, r)
      | Inr None \<Rightarrow> (Inr pending, r)
      | Inr (Some cached_data) \<Rightarrow>
          if cached_data = [] then (Inr pending, r)
          else
            (case loads cached_data of
               Inl e \<Rightarrow> (Inl e, r)
             | Inr auth_data \<Rightarrow>
                 (case redis_delete r (cache_key sid) fault_delete of
                    (Inl e, r') \<Rightarrow> (Inl e, r')
                  | (Inr n, r') \<Rightarrow>
                      (case subscript auth_data ''clerk_token'' of
                         Inl e \<Rightarrow> (Inl e, r')
                       | Inr token \<Rightarrow>
                           (case subscript auth_data ''user_data'' of
                              Inl e \<Rightarrow> (Inl e, r')
                            | Inr udata \<Rightarrow>
                                (Inr (JDict
                                   [(''success'', JBool True),
                                    (''result'',
                                       JDict [(''status'', JStr ''completed''),
                                              (''clerk_token'', token),
                                              (''user_data'', udata)]),
                                    (''message'', JStr ''Authentication completed successfully'')]),
                                 r'))))))"

definition get_extension_auth_status ::
  "(string \<Rightarrow> exn + json) \<Rightarrow> redis \<Rightarrow> string \<Rightarrow> string option \<Rightarrow> string option
     \<Rightarrow> json \<times> redis" where
  "get_extension_auth_status loads r sid fault_get fault_delete =
     (case status_try loads r sid fault_get fault_delete of
        (Inr response, r') \<Rightarrow> (response, r')
      | (Inl e, r') \<Rightarrow>
          (JDict [(''success'', JBool False),
                  (''result'', JNull),
                  (''message'', JStr (''Error checking auth status: '' @ str_exn e)),
                  (''status_code'', JInt 500)],
           r'))"

text \<open>The \<^verbatim>\<open>status\<close> inside the \<^verbatim>\<open>result\<close> of a response.\<close>

definition status_of :: "json \<Rightarrow> json option" where
  "status_of response =
     (case jget response ''result'' of None \<Rightarrow> None | Some res \<Rightarrow> jget res ''status'')"

subsection \<open>The completion endpoint\<close>

text \<open>
  \<^verbatim>\<open>json.dumps\<close> is the argument \<open>dumps\<close>, \<open>timestamp\<close> is
  \<^verbatim>\<open>datetime.utcnow().isoformat()\<close>. The handler returns a dictionary or raises
  \<^verbatim>\<open>HTTPException(status_code, detail)\<close>.
\<close>

record ExtAuthComplete =
  session_id :: string
  clerk_token :: string
  user_data :: "(string \<times> json) list"

datatype http_error = HTTPException int string

definition complete_extension_auth ::
  "(json \<Rightarrow> exn + string) \<Rightarrow> redis \<Rightarrow> ExtAuthComplete \<Rightarrow> string \<Rightarrow> string option
     \<Rightarrow> (http_error + json) \<times> redis" where
  "complete_extension_auth dumps r request timestamp fault_setex =
     (let cache_data =
            JDict [(''clerk_token'', JStr (clerk_token request)),
                   (''user_data'', JDict (user_data request)),
                   (''timestamp'', JStr timestamp)]
      in
      case dumps cache_data of
        Inl e \<Rightarrow> (Inl (HTTPException 500 (''Failed to store auth data: '' @ str_exn e)), r)
      | Inr text \<Rightarrow>
          (case redis_setex r (cache_key (session_id request)) (5 * 60) text fault_setex of
             (Inl e, r') \<Rightarrow>
               (Inl (HTTPException 500 (''Failed to store auth data: '' @ str_exn e)), r')
           | (Inr ok, r') \<Rightarrow>
               (Inr (JDict
                  [(''success'', JBool True),
                   (''result'',
                      JDict [(''session_id'', JStr (session_id request)),
                             (''status'', JStr ''stored'')]),
                   (''message'', JStr ''Authentication data stored successfully''),
                   (''status_code'', JInt 200)]),
                r')))"

subsection \<open>Sample data\<close>

text \<open>
  The values of the scenario of the specification (session \<^verbatim>\<open>sess-1\<close>, token
  \<^verbatim>\<open>abc\<close>, user \<^verbatim>\<open>{id: 42}\<close>), used where a theorem is instantiated:
  a payload, an instant (2024-01-01T00:00:00), a request, the dictionary the completion
  endpoint serialises for it, its JSON text, and a serialiser and a parser that know this
  one document; then the store after one \<^verbatim>\<open>set\<close> and the cache after one
  completion request.
\<close>

definition sample_payload :: json where
  "sample_payload = JDict [(''token'', JStr ''abc''), (''user'', JDict [(''id'', JInt 42)])]"

definition sample_now :: datetime where
  "sample_now = 63839664000000000"

definition sample_request :: ExtAuthComplete where
  "sample_request = \<lparr>session_id = ''sess-1'', clerk_token = ''abc'', user_data = [(''id'', JInt 42)]\<rparr>"

definition sample_cache_data :: json where
  "sample_cache_data =
     JDict [(''clerk_token'', JStr ''abc''),
            (''user_data'', JDict [(''id'', JInt 42)]),
            (''timestamp'', JStr ''2024-01-01T00:00:00'')]"

definition sample_text :: string where
  \<open>sample_text = ''{"clerk_token": "abc", "user_data": {"id": 42}, "timestamp": "2024-01-01T00:00:00"}''\<close>

definition sample_dumps :: "json \<Rightarrow> exn + string" where
  "sample_dumps j =
     (if j = sample_cache_data then Inr sample_text
      else Inl (TypeError ''Object is not JSON serializable''))"

definition sample_loads :: "string \<Rightarrow> exn + json" where
  "sample_loads t =
     (if t = sample_text then Inr sample_cache_data
      else Inl (JSONDecodeError ''Expecting value''))"

definition sample_store :: "json InMemoryAuthStore" where
  "sample_store = snd (set_op init ''sess-1'' sample_payload 300 sample_now sample_now)"

definition sample_redis :: redis where
  "sample_redis =
     snd (complete_extension_auth sample_dumps [] sample_request ''2024-01-01T00:00:00'' None)"

section \<open>Properties\<close>

subsection \<open>Dictionaries and the sweep\<close>

text \<open>
  Deleting a list of keys one after the other removes exactly these keys, from both
  dictionaries; so the sweep removes the keys of \<open>expired_keys\<close> and keeps the
  others as they are.
\<close>

lemma store_fold_delete:
  "map_of (store (fold (\<lambda>key s. delete_op s key) ks s)) j =
     (if j \<in> set ks then None else map_of (store s) j)"
  by (induction ks arbitrary: s) (auto simp: delete_op_def AList.delete_conv')

lemma expiry_fold_delete:
  "map_of (expiry (fold (\<lambda>key s. delete_op s key) ks s)) j =
     (if j \<in> set ks then None else map_of (expiry s) j)"
  by (induction ks arbitrary: s) (auto simp: delete_op_def AList.delete_conv')

lemma keys_fold_delete:
  "map fst (store (fold (\<lambda>key s. delete_op s key) ks s)) = filter (\<lambda>k. k \<notin> set ks) (map fst (store s))"
  "map fst (expiry (fold (\<lambda>key s. delete_op s key) ks s)) = filter (\<lambda>k. k \<notin> set ks) (map fst (expiry s))"
  by (induction ks arbitrary: s) (auto simp: delete_op_def AList.delete_keys removeAll_filter_not_eq intro: filter_cong)

lemma in_expired_keys:
  "j \<in> set (expired_keys s now) \<longleftrightarrow> (\<exists>e. (j, e) \<in> set (expiry s) \<and> e < now)"
  unfolding expired_keys_def by force

lemma expired_keysI: "map_of (expiry s) j = Some e \<Longrightarrow> e < now \<Longrightarrow> j \<in> set (expired_keys s now)"
  unfolding in_expired_keys by (blast dest: map_of_SomeD)

lemma expired_keys_iff:
  assumes "dict_ok s" and "map_of (expiry s) j = Some e"
  shows "j \<in> set (expired_keys s now) \<longleftrightarrow> e < now"
proof
  assume "j \<in> set (expired_keys s now)"
  then obtain e' where "(j, e') \<in> set (expiry s)" and "e' < now"
    unfolding in_expired_keys by blast
  moreover from assms(1) have "distinct (map fst (expiry s))"
    by (simp add: dict_ok_def)
  ultimately show "e < now"
    using assms(2) by simp
next
  assume "e < now"
  with assms(2) show "j \<in> set (expired_keys s now)" by (rule expired_keysI)
qed

lemma not_in_expired_keys: "map_of (expiry s) j = None \<Longrightarrow> j \<notin> set (expired_keys s now)"
  unfolding in_expired_keys by (auto simp: map_of_eq_None_iff intro: rev_image_eqI)

lemma store_cleanup:
  "map_of (store (cleanup_expired s now)) j =
     (if j \<in> set (expired_keys s now) then None else map_of (store s) j)"
  unfolding cleanup_expired_def by (rule store_fold_delete)

lemma expiry_cleanup:
  "map_of (expiry (cleanup_expired s now)) j =
     (if j \<in> set (expired_keys s now) then None else map_of (expiry s) j)"
  unfolding cleanup_expired_def by (rule expiry_fold_delete)

lemma keys_cleanup:
  "map fst (store (cleanup_expired s now)) = filter (\<lambda>k. k \<notin> set (expired_keys s now)) (map fst (store s))"
  "map fst (expiry (cleanup_expired s now)) = filter (\<lambda>k. k \<notin> set (expired_keys s now)) (map fst (expiry s))"
  unfolding cleanup_expired_def by (rule keys_fold_delete)+

lemma cleanup_keeps:
  assumes "dict_ok s" and "map_of (expiry s) j = Some e" and "\<not> e < now"
  shows "map_of (store (cleanup_expired s now)) j = map_of (store s) j"
    and "map_of (expiry (cleanup_expired s now)) j = Some e"
  using assms by (simp_all add: expired_keys_iff store_cleanup expiry_cleanup)

lemma get_op_result:
  "fst (get_op s k now_sweep now) =
     (if k \<in> set (expired_keys s now_sweep) then None
      else case map_of (store s) k of
             None \<Rightarrow> None
           | Some v \<Rightarrow> (case map_of (expiry s) k of
                         None \<Rightarrow> None
                       | Some exp \<Rightarrow> if now < exp then Some v else None))"
  by (simp add: get_op_def Let_def store_cleanup expiry_cleanup split: option.split)

subsection \<open>What \<^verbatim>\<open>set\<close> does\<close>

text \<open>
  \<^verbatim>\<open>set\<close> returns exactly when the expiry instant is a date; then both
  dictionaries are written and swept. When it raises, only the payload has been written.
\<close>

lemma set_op_returns_iff:
  "fst (set_op s k p ttl_seconds now now_sweep) = Inr () \<longleftrightarrow>
     \<bar>ttl_seconds div 86400\<bar> \<le> 999999999 \<and>
     0 \<le> now + ttl_seconds * 1000000 \<and> now + ttl_seconds * 1000000 \<le> datetime_max"
  by (auto simp: set_op_def Let_def timedelta_seconds_def datetime_add_def split: sum.splits if_splits)

lemma returns_Set_iff:
  "returns (Set k p ttl_seconds now now_sweep) \<longleftrightarrow> fst (set_op s k p ttl_seconds now now_sweep) = Inr ()"
  by (auto simp: set_op_def Let_def split: sum.splits)

lemma set_op_Inr:
  assumes "fst (set_op s k p ttl_seconds now now_sweep) = Inr u"
  shows "snd (set_op s k p ttl_seconds now now_sweep) =
           cleanup_expired
             (s\<lparr>store := AList.update k p (store s),
                expiry := AList.update k (now + ttl_seconds * 1000000) (expiry s)\<rparr>) now_sweep"
  using assms
  by (auto simp: set_op_def Let_def timedelta_seconds_def datetime_add_def split: sum.splits if_splits)

lemma set_op_Inl:
  assumes "fst (set_op s k p ttl_seconds now now_sweep) = Inl err"
  shows "snd (set_op s k p ttl_seconds now now_sweep) = s\<lparr>store := AList.update k p (store s)\<rparr>"
  using assms by (auto simp: set_op_def Let_def split: sum.splits)

lemma set_op_live:
  assumes "dict_ok s" and "fst (set_op s k p ttl_seconds now now_sweep) = Inr u"
    and "\<not> now + ttl_seconds * 1000000 < now_sweep"
  shows "map_of (store (snd (set_op s k p ttl_seconds now now_sweep))) k = Some p"
    and "map_of (expiry (snd (set_op s k p ttl_seconds now now_sweep))) k = Some (now + ttl_seconds * 1000000)"
proof -
  let ?t = "s\<lparr>store := AList.update k p (store s),
               expiry := AList.update k (now + ttl_seconds * 1000000) (expiry s)\<rparr>"
  have ok: "dict_ok ?t"
    using assms(1) by (simp add: dict_ok_def AList.distinct_update)
  have e: "map_of (expiry ?t) k = Some (now + ttl_seconds * 1000000)"
    by (simp add: AList.update_conv')
  have v: "map_of (store ?t) k = Some p"
    by (simp add: AList.update_conv')
  show "map_of (store (snd (set_op s k p ttl_seconds now now_sweep))) k = Some p"
    using cleanup_keeps(1) [OF ok e assms(3)] v set_op_Inr [OF assms(2)] by simp
  show "map_of (expiry (snd (set_op s k p ttl_seconds now now_sweep))) k = Some (now + ttl_seconds * 1000000)"
    using cleanup_keeps(2) [OF ok e assms(3)] set_op_Inr [OF assms(2)] by simp
qed

lemma set_op_store_key:
  "map_of (store (snd (set_op s k p ttl_seconds now now_sweep))) k = None \<or>
   map_of (store (snd (set_op s k p ttl_seconds now now_sweep))) k = Some p"
proof (cases "fst (set_op s k p ttl_seconds now now_sweep)")
  case (Inl err)
  then show ?thesis by (simp add: set_op_Inl AList.update_conv')
next
  case (Inr u)
  then show ?thesis by (simp add: set_op_Inr store_cleanup AList.update_conv')
qed

subsection \<open>Every dictionary holds a key once\<close>

text \<open>
  \<open>dict_ok\<close> holds of the new store and is kept by every call, raising or not: it is
  the property of a Python dictionary that the association lists have to share, and the
  theorems below assume it of the store they start from.
\<close>

lemma dict_ok_init: "dict_ok init"
  by (simp add: dict_ok_def init_def)

lemma dict_ok_delete: "dict_ok s \<Longrightarrow> dict_ok (delete_op s k)"
  by (simp add: dict_ok_def delete_op_def AList.distinct_delete)

lemma dict_ok_cleanup: "dict_ok s \<Longrightarrow> dict_ok (cleanup_expired s now)"
  by (simp add: dict_ok_def keys_cleanup)

lemma dict_ok_set: "dict_ok s \<Longrightarrow> dict_ok (snd (set_op s k v ttl now now'))"
  by (auto simp: set_op_def Let_def dict_ok_def AList.distinct_update keys_cleanup split: sum.splits)

lemma dict_ok_get: "dict_ok s \<Longrightarrow> dict_ok (snd (get_op s k now now'))"
  by (simp add: get_op_def Let_def dict_ok_cleanup)

lemma dict_ok_apply: "dict_ok s \<Longrightarrow> dict_ok (apply_call s c)"
  by (cases c) (simp_all add: dict_ok_set dict_ok_get dict_ok_delete dict_ok_cleanup)

lemma dict_ok_run: "dict_ok s \<Longrightarrow> dict_ok (run_calls s cs)"
  unfolding run_calls_def by (induction cs arbitrary: s) (simp_all add: dict_ok_apply)

lemma count_key:
  "distinct ks \<Longrightarrow> k \<in> set ks \<Longrightarrow> count_list ks k = 1"
  by (induction ks) auto

lemma count_dict_key:
  assumes "distinct (map fst xs)" and "map_of xs k = Some v"
  shows "count_list (map fst xs) k = 1"
proof -
  from assms(2) have "k \<in> set (map fst xs)"
    by (auto dest: map_of_SomeD intro: rev_image_eqI)
  with assms(1) show ?thesis by (rule count_key)
qed

lemma count_at_most_one: "distinct ks \<Longrightarrow> count_list ks k \<le> 1"
  by (induction ks) auto

subsection \<open>Keys of the two dictionaries\<close>

lemma keys_agree_cleanup: "keys_agree s \<Longrightarrow> keys_agree (cleanup_expired s now)"
  by (simp add: keys_agree_def keys_cleanup)

lemma keys_agree_delete: "keys_agree s \<Longrightarrow> keys_agree (delete_op s k)"
  by (simp add: keys_agree_def delete_op_def AList.delete_keys)

lemma keys_agree_set:
  assumes "keys_agree s" and "fst (set_op s k p ttl_seconds now now_sweep) = Inr u"
  shows "keys_agree (snd (set_op s k p ttl_seconds now now_sweep))"
proof -
  have "keys_agree (s\<lparr>store := AList.update k p (store s),
                      expiry := AList.update k (now + ttl_seconds * 1000000) (expiry s)\<rparr>)"
    using assms(1) by (simp add: keys_agree_def AList.dom_update)
  then show ?thesis
    unfolding set_op_Inr [OF assms(2)] by (rule keys_agree_cleanup)
qed

lemma keys_agree_init: "keys_agree init"
  by (simp add: keys_agree_def init_def)

lemma keys_agree_apply:
  assumes "keys_agree s" and "returns c"
  shows "keys_agree (apply_call s c)"
proof (cases c)
  case (Set k p ttl_seconds now now_sweep)
  from assms(2) have "returns (Set k p ttl_seconds now now_sweep)"
    unfolding Set .
  then have "fst (set_op s k p ttl_seconds now now_sweep) = Inr ()"
    by (rule iffD1 [OF returns_Set_iff])
  with assms(1) Set show ?thesis by (simp add: keys_agree_set)
next
  case (Get k now_sweep now)
  with assms(1) show ?thesis by (simp add: get_op_def Let_def keys_agree_cleanup)
next
  case (Delete k)
  with assms(1) show ?thesis by (simp add: keys_agree_delete)
next
  case (CleanupExpired now)
  with assms(1) show ?thesis by (simp add: keys_agree_cleanup)
qed

lemma keys_agree_run:
  assumes "keys_agree s" and "\<forall>c \<in> set cs. returns c"
  shows "keys_agree (run_calls s cs)"
  using assms unfolding run_calls_def
  by (induction cs arbitrary: s) (simp_all add: keys_agree_apply)

subsection \<open>Keys that are never written\<close>

lemma never_written_step:
  assumes "map_of (store s) k = None" and "\<not> writes k c"
  shows "map_of (store (apply_call s c)) k = None"
proof (cases c)
  case (Set key p ttl_seconds now now_sweep)
  with assms(2) have ne: "key \<noteq> k" by simp
  show ?thesis
  proof (cases "fst (set_op s key p ttl_seconds now now_sweep)")
    case (Inl err)
    with assms(1) ne Set show ?thesis
      by (simp add: set_op_Inl AList.update_conv')
  next
    case (Inr u)
    with assms(1) ne Set show ?thesis
      by (simp add: set_op_Inr store_cleanup AList.update_conv')
  qed
next
  case (Get key now_sweep now)
  with assms(1) show ?thesis by (simp add: get_op_def Let_def store_cleanup)
next
  case (Delete key)
  with assms(1) show ?thesis by (simp add: delete_op_def AList.delete_conv')
next
  case (CleanupExpired now)
  with assms(1) show ?thesis by (simp add: store_cleanup)
qed

lemma never_written:
  assumes "\<forall>c \<in> set cs. \<not> writes k c" and "map_of (store s) k = None"
  shows "map_of (store (run_calls s cs)) k = None"
  using assms unfolding run_calls_def
  by (induction cs arbitrary: s) (simp_all add: never_written_step)

subsection \<open>The endpoints\<close>

lemma status_unknown:
  assumes "map_of r (cache_key sid) = None"
  shows "get_extension_auth_status loads r sid None fault_delete =
           (JDict [(''success'', JBool True),
                   (''result'', JDict [(''status'', JStr ''pending'')]),
                   (''message'', JStr ''Authentication pending'')], r)"
  using assms by (simp add: get_extension_auth_status_def status_try_def redis_get_def)

lemma status_never_completed_when_absent:
  assumes "map_of r (cache_key sid) = None"
  shows "status_of (fst (get_extension_auth_status loads r sid fault_get fault_delete)) \<noteq> Some (JStr ''completed'')"
  using assms
  by (cases fault_get) (simp_all add: get_extension_auth_status_def status_try_def redis_get_def status_of_def)

lemma status_completed_deletes:
  assumes "status_of (fst (get_extension_auth_status loads r sid fault_get fault_delete)) = Some (JStr ''completed'')"
  shows "snd (get_extension_auth_status loads r sid fault_get fault_delete) = AList.delete (cache_key sid) r"
proof (cases fault_get)
  case (Some m)
  with assms show ?thesis
    by (simp add: get_extension_auth_status_def status_try_def redis_get_def status_of_def)
next
  case None
  note served = this
  show ?thesis
  proof (cases "map_of r (cache_key sid)")
    case None
    with assms served show ?thesis
      by (simp add: get_extension_auth_status_def status_try_def redis_get_def status_of_def)
  next
    case (Some entry)
    obtain cached_data seconds where entry: "entry = (cached_data, seconds)"
      by (cases entry)
    show ?thesis
    proof (cases "cached_data = []")
      case True
      with assms served Some entry show ?thesis
        by (simp add: get_extension_auth_status_def status_try_def redis_get_def status_of_def)
    next
      case False
      note nonempty = this
      show ?thesis
      proof (cases "loads cached_data")
        case (Inl e)
        with assms served Some entry nonempty show ?thesis
          by (simp add: get_extension_auth_status_def status_try_def redis_get_def status_of_def)
      next
        case (Inr auth_data)
        note parsed = this
        show ?thesis
        proof (cases fault_delete)
          case (Some m)
          with assms served \<open>map_of r (cache_key sid) = Some entry\<close> entry nonempty parsed
          show ?thesis
            by (simp add: get_extension_auth_status_def status_try_def redis_get_def
                  redis_delete_def status_of_def)
        next
          case None
          with served \<open>map_of r (cache_key sid) = Some entry\<close> entry nonempty parsed
          show ?thesis
            by (simp add: get_extension_auth_status_def status_try_def redis_get_def
                  redis_delete_def split: sum.split)
        qed
      qed
    qed
  qed
qed

lemma status_completed:
  assumes "map_of r (cache_key sid) = Some (cached_data, seconds)"
    and "cached_data \<noteq> []"
    and "loads cached_data = Inr (JDict d)"
    and "map_of d ''clerk_token'' = Some token"
    and "map_of d ''user_data'' = Some udata"
  shows "get_extension_auth_status loads r sid None None =
           (JDict [(''success'', JBool True),
                   (''result'',
                      JDict [(''status'', JStr ''completed''),
                             (''clerk_token'', token),
                             (''user_data'', udata)]),
                   (''message'', JStr ''Authentication completed successfully'')],
            AList.delete (cache_key sid) r)"
  using assms
  by (simp add: get_extension_auth_status_def status_try_def redis_get_def redis_delete_def)

lemma complete_stores:
  assumes "dumps (JDict [(''clerk_token'', JStr (clerk_token request)),
                   (''user_data'', JDict (user_data request)),
                   (''timestamp'', JStr timestamp)]) = Inr cached_data"
  shows "complete_extension_auth dumps r request timestamp None =
           (Inr (JDict
                  [(''success'', JBool True),
                   (''result'',
                      JDict [(''session_id'', JStr (session_id request)),
                             (''status'', JStr ''stored'')]),
                   (''message'', JStr ''Authentication data stored successfully''),
                   (''status_code'', JInt 200)]),
            AList.update (cache_key (session_id request)) (cached_data, 300) r)"
  using assms by (simp add: complete_extension_auth_def redis_setex_def)

lemma complete_then_status:
  assumes "dumps (JDict [(''clerk_token'', JStr (clerk_token request)),
                   (''user_data'', JDict (user_data request)),
                   (''timestamp'', JStr timestamp)]) = Inr cached_data"
    and "cached_data \<noteq> []"
    and "loads cached_data = Inr (JDict [(''clerk_token'', JStr (clerk_token request)),
                   (''user_data'', JDict (user_data request)),
                   (''timestamp'', JStr timestamp)])"
  shows "fst (get_extension_auth_status loads
                (snd (complete_extension_auth dumps r request timestamp None))
                (session_id request) None None) =
           JDict [(''success'', JBool True),
                  (''result'',
                     JDict [(''status'', JStr ''completed''),
                            (''clerk_token'', JStr (clerk_token request)),
                            (''user_data'', JDict (user_data request))]),
                  (''message'', JStr ''Authentication completed successfully'')]"
proof -
  let ?r' = "AList.update (cache_key (session_id request)) (cached_data, 300) r"
  have "map_of ?r' (cache_key (session_id request)) = Some (cached_data, 300)"
    by (simp add: AList.update_conv')
  from status_completed [where loads = loads, OF this assms(2) assms(3)]
  show ?thesis
    by (simp add: complete_stores [where dumps = dumps, OF assms(1)])
qed

subsection \<open>The sample data, evaluated\<close>

lemma sample_store_eq:
  "sample_store = \<lparr>store = [(''sess-1'', sample_payload)], expiry = [(''sess-1'', 63839664300000000)]\<rparr>"
  by (simp add: sample_store_def set_op_def init_def timedelta_seconds_def datetime_add_def
        datetime_max_def sample_now_def cleanup_expired_def expired_keys_def)

lemma sample_redis_eq: "sample_redis = [(''ext_auth:sess-1'', (sample_text, 300))]"
  by (simp add: sample_redis_def complete_extension_auth_def sample_request_def sample_dumps_def
        sample_cache_data_def redis_setex_def cache_key_def)

section \<open>The claims\<close>

subsection \<open>C1: a completed answer is delivered once\<close>

text \<open>
  Claim C1. When a call of the status endpoint for the session \<open>sid\<close> answers with
  status \<^verbatim>\<open>completed\<close>, the entry under \<open>cache_key sid\<close> is gone from the
  cache when the call returns. The call that follows for the same session answers the
  pending body (success true, result \<^verbatim>\<open>{status: pending}\<close>, and the message) when
  its cache read is served, and it never answers \<^verbatim>\<open>completed\<close>, whatever
  happens to its cache calls. The calls are taken one after the other; no other client
  writes the key in between.
\<close>

theorem status_completed_delivered_once:
  assumes "get_extension_auth_status loads r sid fault_get fault_delete = (response, r')"
    and "status_of response = Some (JStr ''completed'')"
  shows "map_of r' (cache_key sid) = None \<and>
         get_extension_auth_status loads r' sid None fault_delete' =
           (JDict [(''success'', JBool True),
                   (''result'', JDict [(''status'', JStr ''pending'')]),
                   (''message'', JStr ''Authentication pending'')], r') \<and>
         status_of (fst (get_extension_auth_status loads r' sid fault_get' fault_delete'))
           \<noteq> Some (JStr ''completed'')"
proof -
  from assms have "r' = AList.delete (cache_key sid) r"
    using status_completed_deletes [of loads r sid fault_get fault_delete] by simp
  then have gone: "map_of r' (cache_key sid) = None"
    by (simp add: AList.delete_conv')
  from gone status_unknown [OF gone] status_never_completed_when_absent [OF gone]
  show ?thesis by simp
qed

text \<open>
  The scenario of the specification: the completion request for \<^verbatim>\<open>sess-1\<close>, a
  first poll that is answered \<^verbatim>\<open>completed\<close>, a second one that is answered
  \<^verbatim>\<open>pending\<close>.
\<close>

theorem status_completed_delivered_once_witness:
  "get_extension_auth_status sample_loads sample_redis ''sess-1'' None None =
     (JDict [(''success'', JBool True),
             (''result'',
                JDict [(''status'', JStr ''completed''),
                       (''clerk_token'', JStr ''abc''),
                       (''user_data'', JDict [(''id'', JInt 42)])]),
             (''message'', JStr ''Authentication completed successfully'')], []) \<and>
   map_of ([] :: redis) (cache_key ''sess-1'') = None \<and>
   get_extension_auth_status sample_loads [] ''sess-1'' None None =
     (JDict [(''success'', JBool True),
             (''result'', JDict [(''status'', JStr ''pending'')]),
             (''message'', JStr ''Authentication pending'')], []) \<and>
   status_of (fst (get_extension_auth_status sample_loads [] ''sess-1'' None None))
     \<noteq> Some (JStr ''completed'')"
proof -
  have e: "map_of sample_redis (cache_key ''sess-1'') = Some (sample_text, 300)"
    by (simp add: sample_redis_eq cache_key_def)
  have ne: "sample_text \<noteq> []"
    by (simp add: sample_text_def)
  have l: "sample_loads sample_text =
             Inr (JDict [(''clerk_token'', JStr ''abc''),
                         (''user_data'', JDict [(''id'', JInt 42)]),
                         (''timestamp'', JStr ''2024-01-01T00:00:00'')])"
    by (simp add: sample_loads_def sample_cache_data_def)
  have d: "AList.delete (cache_key ''sess-1'') sample_redis = []"
    by (simp add: sample_redis_eq cache_key_def)
  have first: "get_extension_auth_status sample_loads sample_redis ''sess-1'' None None =
     (JDict [(''success'', JBool True),
             (''result'',
                JDict [(''status'', JStr ''completed''),
                       (''clerk_token'', JStr ''abc''),
                       (''user_data'', JDict [(''id'', JInt 42)])]),
             (''message'', JStr ''Authentication completed successfully'')], [])"
    using status_completed [where loads = sample_loads, OF e ne l] d by simp
  have st: "status_of (JDict [(''success'', JBool True),
             (''result'',
                JDict [(''status'', JStr ''completed''),
                       (''clerk_token'', JStr ''abc''),
                       (''user_data'', JDict [(''id'', JInt 42)])]),
             (''message'', JStr ''Authentication completed successfully'')]) = Some (JStr ''completed'')"
    by (simp add: status_of_def)
  from status_completed_delivered_once [OF first st, of None None] first show ?thesis by blast
qed

subsection \<open>C2: a payload that was set is read back\<close>

text \<open>
  As stated, for every \<^verbatim>\<open>ttl_seconds > 0\<close>, the claim fails: with a time to live
  of 1000000000000 seconds the expiry instant lies after \<^verbatim>\<open>datetime.max\<close>,
  \<^verbatim>\<open>set\<close> raises \<^verbatim>\<open>OverflowError\<close> after it has written the payload,
  the key has no expiry, and the \<^verbatim>\<open>get\<close> that follows at the same instant
  returns \<^verbatim>\<open>None\<close>.
\<close>

theorem set_then_get_overflow_counterexample:
  "fst (set_op init ''sess-1'' sample_payload 1000000000000 63839664000000000 63839664000000000)
     = Inl (OverflowError ''date value out of range'') \<and>
   fst (get_op (snd (set_op init ''sess-1'' sample_payload 1000000000000 63839664000000000 63839664000000000))
          ''sess-1'' 63839664000000000 63839664000000000) = None"
  by (simp add: set_op_def get_op_def init_def timedelta_seconds_def datetime_add_def
        datetime_max_def cleanup_expired_def expired_keys_def)

text \<open>
  Claim C2, amended. For every key \<open>k\<close>, payload \<open>p\<close> and time to live for which
  \<^verbatim>\<open>set(k, p, ttl_seconds)\<close> returns (the expiry instant
  \<open>now0 + ttl_seconds * 1000000\<close> is a date), a \<^verbatim>\<open>get(k)\<close> that follows before
  the time to live has elapsed returns \<open>p\<close>. Before it has elapsed means: the sweep
  inside \<^verbatim>\<open>set\<close> (clock \<open>now1\<close>) and the sweep inside \<^verbatim>\<open>get\<close>
  (clock \<open>now2\<close>) do not find the expiry in the past, and the comparison in
  \<^verbatim>\<open>get\<close> (clock \<open>now3\<close>) is before it.
\<close>

theorem set_then_get_returns_payload:
  assumes "dict_ok s"
    and "fst (set_op s k p ttl_seconds now0 now1) = Inr ()"
    and "\<not> now0 + ttl_seconds * 1000000 < now1"
    and "\<not> now0 + ttl_seconds * 1000000 < now2"
    and "now3 < now0 + ttl_seconds * 1000000"
  shows "fst (get_op (snd (set_op s k p ttl_seconds now0 now1)) k now2 now3) = Some p"
proof -
  let ?s1 = "snd (set_op s k p ttl_seconds now0 now1)"
  have ok: "dict_ok ?s1" using assms(1) by (rule dict_ok_set)
  have v: "map_of (store ?s1) k = Some p"
    and e: "map_of (expiry ?s1) k = Some (now0 + ttl_seconds * 1000000)"
    using set_op_live [OF assms(1,2,3)] by simp_all
  have "k \<notin> set (expired_keys ?s1 now2)"
    using expired_keys_iff [OF ok e] assms(4) by simp
  with v e assms(5) show ?thesis by (simp add: get_op_result)
qed

theorem set_then_get_returns_payload_witness:
  "dict_ok (init :: json InMemoryAuthStore) \<and>
   fst (set_op init ''sess-1'' sample_payload 300 63839664000000000 63839664000000001) = Inr () \<and>
   fst (get_op (snd (set_op init ''sess-1'' sample_payload 300 63839664000000000 63839664000000001))
          ''sess-1'' 63839664000000002 63839664000000003) = Some sample_payload"
proof -
  have ok: "dict_ok (init :: json InMemoryAuthStore)" by (rule dict_ok_init)
  have ret: "fst (set_op init ''sess-1'' sample_payload 300 63839664000000000 63839664000000001) = Inr ()"
    by (simp add: set_op_returns_iff datetime_max_def)
  have t1: "\<not> (63839664000000000 :: int) + 300 * 1000000 < 63839664000000001" by simp
  have t2: "\<not> (63839664000000000 :: int) + 300 * 1000000 < 63839664000000002" by simp
  have t3: "(63839664000000003 :: int) < 63839664000000000 + 300 * 1000000" by simp
  from set_then_get_returns_payload [OF ok ret t1 t2 t3] ok ret show ?thesis by simp
qed

subsection \<open>C3: what the endpoints answer when the cache fails\<close>

text \<open>
  As stated, for both endpoints, the claim fails: when \<^verbatim>\<open>setex\<close> raises, the
  completion endpoint returns no body at all; it raises
  \<^verbatim>\<open>HTTPException(status_code=500, detail=...)\<close>.
\<close>

theorem completion_failure_raises_counterexample:
  "complete_extension_auth sample_dumps [] sample_request ''2024-01-01T00:00:00'' (Some ''Connection refused'') =
     (Inl (HTTPException 500 ''Failed to store auth data: Connection refused''), [])"
  by (simp add: complete_extension_auth_def sample_dumps_def sample_request_def
        sample_cache_data_def redis_setex_def)

text \<open>
  Claim C3, amended. When a cache call raises with message \<open>m\<close>: if the read of the
  status endpoint raises, whatever the cache holds, the endpoint returns the body with
  success false, result \<^verbatim>\<open>None\<close>, the message
  \<^verbatim>\<open>Error checking auth status: m\<close> and status_code 500, and does not report
  \<^verbatim>\<open>pending\<close>; the same when its delete raises, which the endpoint calls only
  after a served read of a non-empty entry that parses. The completion endpoint returns
  no body, whatever the cache holds: it raises \<^verbatim>\<open>HTTPException\<close> with status code
  500 and detail \<^verbatim>\<open>Failed to store auth data: m\<close> (or the serialiser's message,
  when \<^verbatim>\<open>json.dumps\<close> raised before \<^verbatim>\<open>setex\<close> was called), and the cache
  is as it was.
\<close>

theorem backend_failure_responses:
  "get_extension_auth_status loads r sid (Some m) fault_delete =
           (JDict [(''success'', JBool False),
                   (''result'', JNull),
                   (''message'', JStr (''Error checking auth status: '' @ m)),
                   (''status_code'', JInt 500)], r) \<and>
   status_of (fst (get_extension_auth_status loads r sid (Some m) fault_delete))
           \<noteq> Some (JStr ''pending'') \<and>
   (map_of r (cache_key sid) = Some (cached_data, seconds) \<and> cached_data \<noteq> [] \<and>
    loads cached_data = Inr auth_data \<longrightarrow>
      get_extension_auth_status loads r sid None (Some m) =
           (JDict [(''success'', JBool False),
                   (''result'', JNull),
                   (''message'', JStr (''Error checking auth status: '' @ m)),
                   (''status_code'', JInt 500)], r) \<and>
      status_of (fst (get_extension_auth_status loads r sid None (Some m)))
           \<noteq> Some (JStr ''pending'')) \<and>
   complete_extension_auth dumps r request timestamp (Some m) =
     (Inl (HTTPException 500
        (''Failed to store auth data: '' @
           (case dumps (JDict [(''clerk_token'', JStr (clerk_token request)),
                               (''user_data'', JDict (user_data request)),
                               (''timestamp'', JStr timestamp)]) of
              Inl e \<Rightarrow> str_exn e
            | Inr cached \<Rightarrow> m))), r)"
proof -
  have a: "get_extension_auth_status loads r sid (Some m) fault_delete =
           (JDict [(''success'', JBool False),
                   (''result'', JNull),
                   (''message'', JStr (''Error checking auth status: '' @ m)),
                   (''status_code'', JInt 500)], r)"
    by (simp add: get_extension_auth_status_def status_try_def redis_get_def)
  have b: "get_extension_auth_status loads r sid None (Some m) =
           (JDict [(''success'', JBool False),
                   (''result'', JNull),
                   (''message'', JStr (''Error checking auth status: '' @ m)),
                   (''status_code'', JInt 500)], r)"
    if "map_of r (cache_key sid) = Some (cached_data, seconds)" and "cached_data \<noteq> []"
      and "loads cached_data = Inr auth_data"
    using that
    by (simp add: get_extension_auth_status_def status_try_def redis_get_def redis_delete_def)
  have c: "complete_extension_auth dumps r request timestamp (Some m) =
     (Inl (HTTPException 500
        (''Failed to store auth data: '' @
           (case dumps (JDict [(''clerk_token'', JStr (clerk_token request)),
                               (''user_data'', JDict (user_data request)),
                               (''timestamp'', JStr timestamp)]) of
              Inl e \<Rightarrow> str_exn e
            | Inr cached \<Rightarrow> m))), r)"
    by (simp add: complete_extension_auth_def redis_setex_def split: sum.split)
  have na: "status_of (fst (get_extension_auth_status loads r sid (Some m) fault_delete))
           \<noteq> Some (JStr ''pending'')"
    unfolding a by (simp add: status_of_def)
  have nb: "status_of (fst (get_extension_auth_status loads r sid None (Some m)))
           \<noteq> Some (JStr ''pending'')"
    if "map_of r (cache_key sid) = Some (cached_data, seconds)" and "cached_data \<noteq> []"
      and "loads cached_data = Inr auth_data"
    unfolding b [OF that] by (simp add: status_of_def)
  from a na b nb c show ?thesis by blast
qed

text \<open>
  An outage of the read with no entry in the cache, an outage of the delete with the entry
  of \<^verbatim>\<open>sess-1\<close> in the cache, and an outage of \<^verbatim>\<open>setex\<close> on an empty
  cache.
\<close>

theorem backend_failure_responses_witness:
  "get_extension_auth_status sample_loads [] ''sess-1'' (Some ''Connection refused'') None =
     (JDict [(''success'', JBool False),
             (''result'', JNull),
             (''message'', JStr (''Error checking auth status: '' @ ''Connection refused'')),
             (''status_code'', JInt 500)], []) \<and>
   map_of sample_redis (cache_key ''sess-1'') = Some (sample_text, 300) \<and>
   sample_text \<noteq> [] \<and>
   sample_loads sample_text = Inr sample_cache_data \<and>
   get_extension_auth_status sample_loads sample_redis ''sess-1'' None (Some ''Connection refused'') =
     (JDict [(''success'', JBool False),
             (''result'', JNull),
             (''message'', JStr (''Error checking auth status: '' @ ''Connection refused'')),
             (''status_code'', JInt 500)], sample_redis) \<and>
   status_of (fst (get_extension_auth_status sample_loads sample_redis ''sess-1'' None
                     (Some ''Connection refused''))) \<noteq> Some (JStr ''pending'') \<and>
   complete_extension_auth sample_dumps [] sample_request ''2024-01-01T00:00:00''
       (Some ''Connection refused'') =
     (Inl (HTTPException 500 (''Failed to store auth data: '' @ ''Connection refused'')), [])"
proof -
  have e: "map_of sample_redis (cache_key ''sess-1'') = Some (sample_text, 300)"
    by (simp add: sample_redis_eq cache_key_def)
  have ne: "sample_text \<noteq> []"
    by (simp add: sample_text_def)
  have l: "sample_loads sample_text = Inr sample_cache_data"
    by (simp add: sample_loads_def)
  have d: "sample_dumps (JDict [(''clerk_token'', JStr (clerk_token sample_request)),
                        (''user_data'', JDict (user_data sample_request)),
                        (''timestamp'', JStr ''2024-01-01T00:00:00'')]) = Inr sample_text"
    by (simp add: sample_dumps_def sample_request_def sample_cache_data_def)
  note absent = backend_failure_responses [where loads = sample_loads and r = "[]" and sid = "''sess-1''"
      and m = "''Connection refused''" and fault_delete = None and dumps = sample_dumps
      and request = sample_request and timestamp = "''2024-01-01T00:00:00''"]
  note present = backend_failure_responses [where loads = sample_loads and r = sample_redis and sid = "''sess-1''"
      and m = "''Connection refused''" and cached_data = sample_text and seconds = 300
      and auth_data = sample_cache_data]
  from absent d have first: "get_extension_auth_status sample_loads [] ''sess-1'' (Some ''Connection refused'') None =
     (JDict [(''success'', JBool False),
             (''result'', JNull),
             (''message'', JStr (''Error checking auth status: '' @ ''Connection refused'')),
             (''status_code'', JInt 500)], [])"
    and third: "complete_extension_auth sample_dumps [] sample_request ''2024-01-01T00:00:00''
       (Some ''Connection refused'') =
     (Inl (HTTPException 500 (''Failed to store auth data: '' @ ''Connection refused'')), [])"
    by simp_all
  from present e ne l have second: "get_extension_auth_status sample_loads sample_redis ''sess-1'' None (Some ''Connection refused'') =
     (JDict [(''success'', JBool False),
             (''result'', JNull),
             (''message'', JStr (''Error checking auth status: '' @ ''Connection refused'')),
             (''status_code'', JInt 500)], sample_redis)"
    and np: "status_of (fst (get_extension_auth_status sample_loads sample_redis ''sess-1'' None
                     (Some ''Connection refused''))) \<noteq> Some (JStr ''pending'')"
    by blast+
  from first e ne l second np third show ?thesis by blast
qed

subsection \<open>C4: an entry past its expiry is not returned\<close>

text \<open>
  Claim C4. Let \<open>e\<close> be the expiry stored for the key \<open>k\<close>. Once the clock has
  passed \<open>e\<close>, \<^verbatim>\<open>get(k)\<close> returns \<^verbatim>\<open>None\<close>, with no call of
  \<^verbatim>\<open>delete(k)\<close> by the caller. It is enough that one of the two clock readings
  of \<^verbatim>\<open>get\<close> is late: the sweep's is past \<open>e\<close>, or the comparison's is not
  before \<open>e\<close>.
\<close>

theorem get_after_expiry_returns_None:
  assumes "map_of (expiry s) k = Some e" and "e < now_sweep \<or> e \<le> now"
  shows "fst (get_op s k now_sweep now) = None"
proof (cases "k \<in> set (expired_keys s now_sweep)")
  case True
  then show ?thesis by (simp add: get_op_result)
next
  case False
  with assms have "e \<le> now"
    using expired_keysI [of s k e now_sweep] by blast
  with assms(1) False show ?thesis
    by (simp add: get_op_result split: option.split)
qed

text \<open>
  The key \<^verbatim>\<open>sess-1\<close>, written by \<^verbatim>\<open>set\<close> with 300 seconds to live, read
  one microsecond after its expiry.
\<close>

theorem get_after_expiry_returns_None_witness:
  "map_of (expiry sample_store) ''sess-1'' = Some 63839664300000000 \<and>
   fst (get_op sample_store ''sess-1'' 63839664300000001 63839664300000002) = None"
proof -
  have e: "map_of (expiry sample_store) ''sess-1'' = Some 63839664300000000"
    by (simp add: sample_store_eq)
  have t: "(63839664300000000 :: int) < 63839664300000001 \<or> (63839664300000000 :: int) \<le> 63839664300000002"
    by simp
  from get_after_expiry_returns_None [OF e t] e show ?thesis by simp
qed

subsection \<open>C5: the answer for a stored entry\<close>

text \<open>
  As stated the claim fails on the name of one key: the result of the answer has the keys
  \<^verbatim>\<open>status\<close>, \<^verbatim>\<open>clerk_token\<close> and \<^verbatim>\<open>user_data\<close>, and no key
  \<^verbatim>\<open>credential_token\<close>. Here for the entry that the completion request for
  \<^verbatim>\<open>sess-1\<close> stored.
\<close>

theorem status_response_no_credential_token_counterexample:
  "fst (get_extension_auth_status sample_loads sample_redis ''sess-1'' None None) =
     JDict [(''success'', JBool True),
            (''result'',
               JDict [(''status'', JStr ''completed''),
                      (''clerk_token'', JStr ''abc''),
                      (''user_data'', JDict [(''id'', JInt 42)])]),
            (''message'', JStr ''Authentication completed successfully'')] \<and>
   jget (JDict [(''status'', JStr ''completed''),
                (''clerk_token'', JStr ''abc''),
                (''user_data'', JDict [(''id'', JInt 42)])]) ''credential_token'' = None"
proof -
  have e: "map_of sample_redis (cache_key ''sess-1'') = Some (sample_text, 300)"
    by (simp add: sample_redis_eq cache_key_def)
  have ne: "sample_text \<noteq> []"
    by (simp add: sample_text_def)
  have l: "sample_loads sample_text =
             Inr (JDict [(''clerk_token'', JStr ''abc''),
                         (''user_data'', JDict [(''id'', JInt 42)]),
                         (''timestamp'', JStr ''2024-01-01T00:00:00'')])"
    by (simp add: sample_loads_def sample_cache_data_def)
  from status_completed [where loads = sample_loads, OF e ne l] show ?thesis by simp
qed

text \<open>
  Claim C5, amended. Whenever a live entry exists for the polled session, the answer is
  success true with the result \<^verbatim>\<open>{status: completed, clerk_token, user_data}\<close>,
  where \<^verbatim>\<open>clerk_token\<close> and \<^verbatim>\<open>user_data\<close> carry the stored values (and
  the message); the entry is deleted. A live entry: the cache returns for the session's
  key a non-empty text that parses to a dictionary with the keys \<^verbatim>\<open>clerk_token\<close>
  and \<^verbatim>\<open>user_data\<close>, which is what the completion endpoint writes; the read and
  the delete are served.
\<close>

theorem status_completed_response:
  assumes "map_of r (cache_key sid) = Some (cached_data, seconds)"
    and "cached_data \<noteq> []"
    and "loads cached_data = Inr (JDict d)"
    and "map_of d ''clerk_token'' = Some token"
    and "map_of d ''user_data'' = Some udata"
  shows "get_extension_auth_status loads r sid None None =
           (JDict [(''success'', JBool True),
                   (''result'',
                      JDict [(''status'', JStr ''completed''),
                             (''clerk_token'', token),
                             (''user_data'', udata)]),
                   (''message'', JStr ''Authentication completed successfully'')],
            AList.delete (cache_key sid) r)"
  using assms by (rule status_completed)

theorem status_completed_response_witness:
  "map_of sample_redis (cache_key ''sess-1'') = Some (sample_text, 300) \<and>
   sample_text \<noteq> [] \<and>
   sample_loads sample_text =
     Inr (JDict [(''clerk_token'', JStr ''abc''),
                 (''user_data'', JDict [(''id'', JInt 42)]),
                 (''timestamp'', JStr ''2024-01-01T00:00:00'')]) \<and>
   get_extension_auth_status sample_loads sample_redis ''sess-1'' None None =
     (JDict [(''success'', JBool True),
             (''result'',
                JDict [(''status'', JStr ''completed''),
                       (''clerk_token'', JStr ''abc''),
                       (''user_data'', JDict [(''id'', JInt 42)])]),
             (''message'', JStr ''Authentication completed successfully'')],
      AList.delete (cache_key ''sess-1'') sample_redis)"
proof -
  have e: "map_of sample_redis (cache_key ''sess-1'') = Some (sample_text, 300)"
    by (simp add: sample_redis_eq cache_key_def)
  have ne: "sample_text \<noteq> []"
    by (simp add: sample_text_def)
  have l: "sample_loads sample_text =
             Inr (JDict [(''clerk_token'', JStr ''abc''),
                         (''user_data'', JDict [(''id'', JInt 42)]),
                         (''timestamp'', JStr ''2024-01-01T00:00:00'')])"
    by (simp add: sample_loads_def sample_cache_data_def)
  from status_completed_response [where loads = sample_loads, OF e ne l] e ne l show ?thesis by simp
qed

subsection \<open>C6: the last write wins\<close>

text \<open>
  As stated, for any time to live, the claim fails on the number of entries. With
  \<^verbatim>\<open>ttl_seconds = -5\<close> both calls of \<^verbatim>\<open>set\<close> return and the sweep inside
  the second removes the key it has just written: no entry for the key is left. With
  \<^verbatim>\<open>ttl_seconds = 1000000000000\<close> both calls raise \<^verbatim>\<open>OverflowError\<close>: the
  key is left in \<open>store\<close>, not in \<open>expiry\<close>, and \<^verbatim>\<open>get\<close> returns
  \<^verbatim>\<open>None\<close>.
\<close>

theorem last_write_wins_negative_ttl_counterexample:
  "snd (set_op (snd (set_op init ''sess-1'' sample_payload (- 5) 63839664000000000 63839664000000000))
          ''sess-1'' (JStr ''second'') (- 5) 63839664000000000 63839664000000000)
     = \<lparr>store = [], expiry = []\<rparr> \<and>
   snd (set_op (snd (set_op init ''sess-1'' sample_payload 1000000000000 63839664000000000 63839664000000000))
          ''sess-1'' (JStr ''second'') 1000000000000 63839664000000000 63839664000000000)
     = \<lparr>store = [(''sess-1'', JStr ''second'')], expiry = []\<rparr> \<and>
   fst (get_op \<lparr>store = [(''sess-1'', JStr ''second'')], expiry = []\<rparr>
          ''sess-1'' 63839664000000000 63839664000000000) = None"
  by (simp add: set_op_def get_op_def init_def timedelta_seconds_def datetime_add_def
        datetime_max_def cleanup_expired_def expired_keys_def delete_op_def)

text \<open>
  Claim C6, amended. After \<^verbatim>\<open>set(k, p1, ttl)\<close> followed by
  \<^verbatim>\<open>set(k, p2, ttl)\<close>, returning or raising, each dictionary has at most one entry
  for \<open>k\<close>, and a \<^verbatim>\<open>get(k)\<close> at any instants (clocks \<open>d0\<close>, \<open>d1\<close>) returns
  \<open>p2\<close> or \<^verbatim>\<open>None\<close>, so never an overwritten \<open>p1\<close>. When the second call
  returns and its sweep (clock \<open>b1\<close>) does not find the new expiry in the past, each
  dictionary has exactly one entry for \<open>k\<close>, and a \<^verbatim>\<open>get(k)\<close> before the expiry
  (clocks \<open>c0\<close>, \<open>c1\<close>) returns \<open>p2\<close>.
\<close>

theorem last_write_wins:
  assumes "dict_ok s"
    and "s1 = snd (set_op s k p1 ttl_seconds a0 a1)"
    and "s2 = snd (set_op s1 k p2 ttl_seconds b0 b1)"
  shows "count_list (map fst (store s2)) k \<le> 1 \<and>
         count_list (map fst (expiry s2)) k \<le> 1 \<and>
         (fst (get_op s2 k d0 d1) = None \<or> fst (get_op s2 k d0 d1) = Some p2) \<and>
         (fst (set_op s1 k p2 ttl_seconds b0 b1) = Inr () \<and> \<not> b0 + ttl_seconds * 1000000 < b1 \<longrightarrow>
            count_list (map fst (store s2)) k = 1 \<and>
            count_list (map fst (expiry s2)) k = 1 \<and>
            (\<not> b0 + ttl_seconds * 1000000 < c0 \<and> c1 < b0 + ttl_seconds * 1000000 \<longrightarrow>
               fst (get_op s2 k c0 c1) = Some p2))"
proof -
  have ok1: "dict_ok s1" using assms(1,2) by (simp add: dict_ok_set)
  have ok2: "dict_ok s2" unfolding assms(3) using ok1 by (rule dict_ok_set)
  have most_store: "count_list (map fst (store s2)) k \<le> 1"
    using ok2 count_at_most_one [of "map fst (store s2)" k] by (simp add: dict_ok_def)
  have most_expiry: "count_list (map fst (expiry s2)) k \<le> 1"
    using ok2 count_at_most_one [of "map fst (expiry s2)" k] by (simp add: dict_ok_def)
  have "map_of (store s2) k = None \<or> map_of (store s2) k = Some p2"
    unfolding assms(3) by (rule set_op_store_key)
  then have any: "fst (get_op s2 k d0 d1) = None \<or> fst (get_op s2 k d0 d1) = Some p2"
    by (auto simp: get_op_result split: option.split)
  have live: "count_list (map fst (store s2)) k = 1 \<and>
            count_list (map fst (expiry s2)) k = 1 \<and>
            (\<not> b0 + ttl_seconds * 1000000 < c0 \<and> c1 < b0 + ttl_seconds * 1000000 \<longrightarrow>
               fst (get_op s2 k c0 c1) = Some p2)"
    if ret: "fst (set_op s1 k p2 ttl_seconds b0 b1) = Inr ()"
      and sweep: "\<not> b0 + ttl_seconds * 1000000 < b1"
  proof -
    have v: "map_of (store s2) k = Some p2"
      and e: "map_of (expiry s2) k = Some (b0 + ttl_seconds * 1000000)"
      unfolding assms(3) using set_op_live [OF ok1 ret sweep] by simp_all
    have one_store: "count_list (map fst (store s2)) k = 1"
      using ok2 v by (simp add: dict_ok_def count_dict_key)
    have one_expiry: "count_list (map fst (expiry s2)) k = 1"
      using ok2 e by (simp add: dict_ok_def count_dict_key)
    have "fst (get_op s2 k c0 c1) = Some p2"
      if "\<not> b0 + ttl_seconds * 1000000 < c0" and "c1 < b0 + ttl_seconds * 1000000"
    proof -
      have "k \<notin> set (expired_keys s2 c0)"
        using expired_keys_iff [OF ok2 e] that(1) by simp
      with v e that(2) show ?thesis by (simp add: get_op_result)
    qed
    with one_store one_expiry show ?thesis by simp
  qed
  from most_store most_expiry any live show ?thesis by blast
qed

text \<open>
  Two writes of \<^verbatim>\<open>sess-1\<close> with 300 seconds to live, a read before the expiry and
  a read at the expiry.
\<close>

theorem last_write_wins_witness:
  "dict_ok (init :: json InMemoryAuthStore) \<and>
   set_op (snd (set_op init ''sess-1'' sample_payload 300 63839664000000000 63839664000000000))
      ''sess-1'' (JStr ''second'') 300 63839664000000001 63839664000000001
     = (Inr (), \<lparr>store = [(''sess-1'', JStr ''second'')], expiry = [(''sess-1'', 63839664300000001)]\<rparr>) \<and>
   count_list (map fst (store \<lparr>store = [(''sess-1'', JStr ''second'')], expiry = [(''sess-1'', 63839664300000001)]\<rparr>)) ''sess-1'' = 1 \<and>
   count_list (map fst (expiry \<lparr>store = [(''sess-1'', JStr ''second'')], expiry = [(''sess-1'', 63839664300000001)]\<rparr>)) ''sess-1'' = 1 \<and>
   fst (get_op \<lparr>store = [(''sess-1'', JStr ''second'')], expiry = [(''sess-1'', 63839664300000001)]\<rparr>
          ''sess-1'' 63839664000000002 63839664000000002) = Some (JStr ''second'') \<and>
   fst (get_op \<lparr>store = [(''sess-1'', JStr ''second'')], expiry = [(''sess-1'', 63839664300000001)]\<rparr>
          ''sess-1'' 63839664300000001 63839664300000001) = None"
proof -
  let ?s2 = "\<lparr>store = [(''sess-1'', JStr ''second'')], expiry = [(''sess-1'', 63839664300000001)]\<rparr> :: json InMemoryAuthStore"
  let ?s1 = "snd (set_op init ''sess-1'' sample_payload 300 63839664000000000 63839664000000000) :: json InMemoryAuthStore"
  have ok: "dict_ok (init :: json InMemoryAuthStore)" by (rule dict_ok_init)
  have s2: "set_op ?s1 ''sess-1'' (JStr ''second'') 300 63839664000000001 63839664000000001 = (Inr (), ?s2)"
    by (simp add: set_op_def init_def timedelta_seconds_def datetime_add_def
          datetime_max_def cleanup_expired_def expired_keys_def)
  then have s2': "?s2 = snd (set_op ?s1 ''sess-1'' (JStr ''second'') 300 63839664000000001 63839664000000001)"
    and ret: "fst (set_op ?s1 ''sess-1'' (JStr ''second'') 300 63839664000000001 63839664000000001) = Inr ()"
    by simp_all
  have t1: "\<not> (63839664000000001 :: int) + 300 * 1000000 < 63839664000000001" by simp
  have t2: "\<not> (63839664000000001 :: int) + 300 * 1000000 < 63839664000000002" by simp
  have t3: "(63839664000000002 :: int) < 63839664000000001 + 300 * 1000000" by simp
  have late: "fst (get_op ?s2 ''sess-1'' 63839664300000001 63839664300000001) = None"
    by (simp add: get_op_def cleanup_expired_def expired_keys_def)
  from last_write_wins [OF ok refl s2', of 0 0 63839664000000002 63839664000000002] ret t1 t2 t3
  have "count_list (map fst (store ?s2)) ''sess-1'' = 1 \<and>
        count_list (map fst (expiry ?s2)) ''sess-1'' = 1 \<and>
        fst (get_op ?s2 ''sess-1'' 63839664000000002 63839664000000002) = Some (JStr ''second'')"
    by blast
  with ok s2 late show ?thesis by blast
qed

subsection \<open>C7: a key that was never written\<close>

text \<open>
  Claim C7. After any sequence of calls on a new store none of which is a
  \<^verbatim>\<open>set\<close> of the key \<open>k\<close>, \<^verbatim>\<open>get(k)\<close> returns \<^verbatim>\<open>None\<close>. And
  a poll of the status endpoint for a session the cache has no entry for, its read being
  served, answers success true with the result \<^verbatim>\<open>{status: pending}\<close> and leaves
  the cache as it is.
\<close>

theorem never_written_is_pending:
  assumes "\<forall>c \<in> set cs. \<not> writes k c"
    and "map_of r (cache_key sid) = None"
  shows "fst (get_op (run_calls init cs) k now_sweep now) = None \<and>
         get_extension_auth_status loads r sid None fault_delete =
           (JDict [(''success'', JBool True),
                   (''result'', JDict [(''status'', JStr ''pending'')]),
                   (''message'', JStr ''Authentication pending'')], r)"
proof -
  have "map_of (store (run_calls init cs)) k = None"
    using assms(1) by (rule never_written) (simp add: init_def)
  then have "fst (get_op (run_calls init cs) k now_sweep now) = None"
    by (simp add: get_op_result)
  with status_unknown [OF assms(2)] show ?thesis by simp
qed

theorem never_written_is_pending_witness:
  "\<not> writes ''sess-404'' (Set ''sess-1'' sample_payload 300 63839664000000000 63839664000000000) \<and>
   \<not> writes ''sess-404'' (Delete ''sess-404'' :: json call) \<and>
   map_of sample_redis (cache_key ''sess-404'') = None \<and>
   fst (get_op (run_calls init [Set ''sess-1'' sample_payload 300 63839664000000000 63839664000000000,
                                Delete ''sess-404''])
          ''sess-404'' 63839664000000001 63839664000000001) = None \<and>
   get_extension_auth_status sample_loads sample_redis ''sess-404'' None None =
     (JDict [(''success'', JBool True),
             (''result'', JDict [(''status'', JStr ''pending'')]),
             (''message'', JStr ''Authentication pending'')], sample_redis)"
proof -
  have w: "\<forall>c \<in> set [Set ''sess-1'' sample_payload 300 63839664000000000 63839664000000000,
                      Delete ''sess-404'']. \<not> writes ''sess-404'' c"
    by simp
  have r: "map_of sample_redis (cache_key ''sess-404'') = None"
    by (simp add: sample_redis_eq cache_key_def)
  from never_written_is_pending [OF w r] r show ?thesis by simp
qed

subsection \<open>C8: other keys are left alone\<close>

text \<open>
  Claim C8. Let \<open>j\<close> hold the payload \<open>v\<close> with an expiry \<open>e\<close> that is not in
  the past for the sweep (clock \<open>now_sweep\<close>). For a different key \<open>k\<close>, after
  \<^verbatim>\<open>set(k, p, ttl)\<close> (returning or raising), after \<^verbatim>\<open>get(k)\<close> and after
  \<^verbatim>\<open>delete(k)\<close> the key \<open>j\<close> still has the payload \<open>v\<close> and the expiry
  \<open>e\<close>.
\<close>

theorem other_key_unchanged:
  assumes "dict_ok s" and "k \<noteq> j"
    and "map_of (store s) j = Some v" and "map_of (expiry s) j = Some e"
    and "\<not> e < now_sweep"
  shows "map_of (store (snd (set_op s k p ttl_seconds now now_sweep))) j = Some v \<and>
         map_of (expiry (snd (set_op s k p ttl_seconds now now_sweep))) j = Some e \<and>
         map_of (store (snd (get_op s k now_sweep now))) j = Some v \<and>
         map_of (expiry (snd (get_op s k now_sweep now))) j = Some e \<and>
         map_of (store (delete_op s k)) j = Some v \<and>
         map_of (expiry (delete_op s k)) j = Some e"
proof -
  have del: "map_of (store (delete_op s k)) j = Some v \<and> map_of (expiry (delete_op s k)) j = Some e"
    using assms by (simp add: delete_op_def)
  have get: "map_of (store (snd (get_op s k now_sweep now))) j = Some v \<and>
             map_of (expiry (snd (get_op s k now_sweep now))) j = Some e"
    using assms cleanup_keeps [of s j e now_sweep] by (simp add: get_op_def Let_def)
  have set: "map_of (store (snd (set_op s k p ttl_seconds now now_sweep))) j = Some v \<and>
             map_of (expiry (snd (set_op s k p ttl_seconds now now_sweep))) j = Some e"
  proof (cases "fst (set_op s k p ttl_seconds now now_sweep)")
    case (Inl err)
    then have "snd (set_op s k p ttl_seconds now now_sweep) = s\<lparr>store := AList.update k p (store s)\<rparr>"
      by (auto simp: set_op_def Let_def split: sum.splits)
    with assms show ?thesis by (simp add: AList.update_conv')
  next
    case (Inr u)
    then obtain exp where
      s': "snd (set_op s k p ttl_seconds now now_sweep) =
             cleanup_expired (s\<lparr>store := AList.update k p (store s),
                                expiry := AList.update k exp (expiry s)\<rparr>) now_sweep"
      by (auto simp: set_op_def Let_def split: sum.splits)
    let ?t = "s\<lparr>store := AList.update k p (store s), expiry := AList.update k exp (expiry s)\<rparr>"
    have ok: "dict_ok ?t"
      using assms(1) by (simp add: dict_ok_def AList.distinct_update)
    have "map_of (expiry ?t) j = Some e" "map_of (store ?t) j = Some v"
      using assms by (simp_all add: AList.update_conv')
    with cleanup_keeps [OF ok, of j e now_sweep] assms(5) s' show ?thesis by simp
  qed
  from set get del show ?thesis by simp
qed

theorem other_key_unchanged_witness:
  "dict_ok sample_store \<and>
   map_of (store (snd (set_op sample_store ''sess-2'' JNull 300 63839664000000000 63839664000000000))) ''sess-1'' = Some sample_payload \<and>
   map_of (expiry (snd (set_op sample_store ''sess-2'' JNull 300 63839664000000000 63839664000000000))) ''sess-1'' = Some 63839664300000000 \<and>
   map_of (store (snd (get_op sample_store ''sess-2'' 63839664000000000 63839664000000000))) ''sess-1'' = Some sample_payload \<and>
   map_of (expiry (snd (get_op sample_store ''sess-2'' 63839664000000000 63839664000000000))) ''sess-1'' = Some 63839664300000000 \<and>
   map_of (store (delete_op sample_store ''sess-2'')) ''sess-1'' = Some sample_payload \<and>
   map_of (expiry (delete_op sample_store ''sess-2'')) ''sess-1'' = Some 63839664300000000"
proof -
  have ok: "dict_ok sample_store"
    by (simp add: sample_store_eq dict_ok_def)
  have ne: "''sess-2'' \<noteq> ''sess-1''" by simp
  have v: "map_of (store sample_store) ''sess-1'' = Some sample_payload"
    by (simp add: sample_store_eq)
  have e: "map_of (expiry sample_store) ''sess-1'' = Some 63839664300000000"
    by (simp add: sample_store_eq)
  have t: "\<not> (63839664300000000 :: int) < 63839664000000000" by simp
  from other_key_unchanged [OF ok ne v e t] ok show ?thesis by simp
qed

subsection \<open>C9: the two dictionaries have the same keys\<close>

text \<open>
  As stated, for every operation, the claim fails: a \<^verbatim>\<open>set\<close> whose expiry
  instant is not a date raises after it has written the payload, and on a new store
  leaves the key in \<open>store\<close> and not in \<open>expiry\<close>.
\<close>

theorem keys_agree_raising_set_counterexample:
  "map_of (store (snd (set_op init ''sess-1'' sample_payload 1000000000000 63839664000000000 63839664000000000))) ''sess-1''
      = Some sample_payload \<and>
   expiry (snd (set_op init ''sess-1'' sample_payload 1000000000000 63839664000000000 63839664000000000)) = [] \<and>
   \<not> keys_agree (snd (set_op init ''sess-1'' sample_payload 1000000000000 63839664000000000 63839664000000000))"
  by (simp add: set_op_def init_def timedelta_seconds_def datetime_add_def
        datetime_max_def keys_agree_def)

text \<open>
  Claim C9, amended. The two dictionaries of a new store have the same keys, and every
  call that returns (\<^verbatim>\<open>get\<close>, \<^verbatim>\<open>delete\<close>, \<^verbatim>\<open>_cleanup_expired\<close>,
  and a \<^verbatim>\<open>set\<close> whose expiry instant is a date) keeps the keys the same.
\<close>

theorem keys_agree_kept:
  assumes "keys_agree s" and "returns c"
  shows "keys_agree (init :: 'v InMemoryAuthStore) \<and> keys_agree (apply_call s c)"
  using assms by (simp add: keys_agree_init keys_agree_apply)

theorem keys_agree_kept_witness:
  "keys_agree sample_store \<and> returns (Set ''sess-2'' sample_payload 300 63839664000000000 63839664000000000) \<and>
   keys_agree (init :: json InMemoryAuthStore) \<and>
   keys_agree (apply_call sample_store (Set ''sess-2'' sample_payload 300 63839664000000000 63839664000000000))"
proof -
  have a: "keys_agree sample_store"
    by (simp add: sample_store_eq keys_agree_def)
  have r: "returns (Set ''sess-2'' sample_payload 300 63839664000000000 63839664000000000)"
    by (simp add: timedelta_seconds_def datetime_add_def datetime_max_def)
  from keys_agree_kept [OF a r] a r show ?thesis by simp
qed

subsection \<open>C10: the expiry instant itself is excluded\<close>

text \<open>
  Claim C10. When the clock reads exactly the expiry \<open>e\<close> stored for \<open>k\<close>,
  \<^verbatim>\<open>get(k)\<close> returns \<^verbatim>\<open>None\<close>, although the sweep of that call has not
  removed the entry: after the call \<open>k\<close> still has its expiry and its payload.
\<close>

theorem expiry_boundary_exclusive: 
  assumes "dict_ok s" and "map_of (expiry s) k = Some e"
  shows "fst (get_op s k e e) = None \<and>
         map_of (expiry (snd (get_op s k e e))) k = Some e \<and>
         map_of (store (snd (get_op s k e e))) k = map_of (store s) k"
proof -
  have not_swept: "k \<notin> set (expired_keys s e)"
    using assms by (simp add: expired_keys_iff)
  have "fst (get_op s k e e) = None"
    using assms(2) not_swept by (simp add: get_op_result split: option.split)
  moreover have "map_of (expiry (snd (get_op s k e e))) k = Some e"
    using assms(2) not_swept by (simp add: get_op_def Let_def expiry_cleanup)
  moreover have "map_of (store (snd (get_op s k e e))) k = map_of (store s) k"
    using not_swept by (simp add: get_op_def Let_def store_cleanup)
  ultimately show ?thesis by simp
qed

theorem expiry_boundary_exclusive_witness:
  "dict_ok sample_store \<and> map_of (expiry sample_store) ''sess-1'' = Some 63839664300000000 \<and>
   fst (get_op sample_store ''sess-1'' 63839664300000000 63839664300000000) = None \<and>
   map_of (expiry (snd (get_op sample_store ''sess-1'' 63839664300000000 63839664300000000))) ''sess-1''
     = Some 63839664300000000 \<and>
   map_of (store (snd (get_op sample_store ''sess-1'' 63839664300000000 63839664300000000))) ''sess-1''
     = Some sample_payload"
proof -
  have ok: "dict_ok sample_store"
    by (simp add: sample_store_eq dict_ok_def)
  have e: "map_of (expiry sample_store) ''sess-1'' = Some 63839664300000000"
    by (simp add: sample_store_eq)
  have v: "map_of (store sample_store) ''sess-1'' = Some sample_payload"
    by (simp add: sample_store_eq)
  from expiry_boundary_exclusive [OF ok e] ok e v show ?thesis by simp
qed

end
